theory Spec2Isabelle
  imports Complex_Main
begin

section \<open>Data model of the editor (App.tsx)\<close>

text \<open>
  A snapshot is a browser \<^verbatim>\<open>File\<close>: a display name, a MIME type and an opaque
  byte string.  The history store never looks inside it.
\<close>

datatype jsfile = File (fname: string) (ftype: string) (fbytes: string)

datatype toastType = TError | TSuccess | TInfo

text \<open>
  \<^verbatim>\<open>ToastMessage\<close>.  The id is \<^verbatim>\<open>Date.now().toString()\<close>; the model keeps the
  number that was read from the clock (the decimal rendering is injective).
\<close>

record toastMessage =
  tid :: int
  message :: string
  ttype :: toastType

text \<open>
  What the program determines of a canvas bitmap is its size and the drawing
  calls made on it since it was last reset, in order.  Which pixels a call
  colours and how strongly is the work of the browser's rasteriser and
  compositor (anti-aliasing, 8-bit channels) and is not modelled.  A bitmap
  without drawing calls is transparent throughout.  A data URL produced by
  \<^verbatim>\<open>toDataURL\<close> is modelled by the bitmap it encodes.
\<close>

record colour =
  cred :: nat
  cgreen :: nat
  cblue :: nat
  calpha :: rat

datatype lineCap = ButtCap | RoundCap | SquareCap

text \<open>
  The two paths the mask handler builds: \<^verbatim>\<open>arc(x, y, radius, 0, 2 * PI)\<close> and
  \<^verbatim>\<open>moveTo(x0, y0); lineTo(x1, y1)\<close>.
\<close>

datatype shape = Arc rat rat rat | Line rat rat rat rat

text \<open>
  \<^verbatim>\<open>fill()\<close> with a fill style; \<^verbatim>\<open>stroke()\<close> with a stroke style, a line width and
  a line cap; \<^verbatim>\<open>clearRect(x, y, w, h)\<close>.  The context's compositing mode is never
  assigned by the program and so stays the default.
\<close>

datatype drawCmd =
    FillPath colour shape
  | StrokePath colour rat lineCap shape
  | ClearRect rat rat rat rat

record bitmap =
  bwidth :: nat
  bheight :: nat
  drawn :: "drawCmd list"

text \<open>
  The mask \<^verbatim>\<open>canvas\<close> element behind \<^verbatim>\<open>maskCanvasRef\<close>: its bitmap, the origin of
  its bounding client rectangle, and whether \<^verbatim>\<open>getContext('2d')\<close> yields a context.
\<close>

record canvas =
  surface :: bitmap
  rectLeft :: rat
  rectTop :: rat
  ctx2d :: bool

text \<open>
  Calls of the generation functions of services/geminiService, with the
  arguments the editor passes.
\<close>

datatype request =
    EditAt jsfile string "int \<times> int"
  | ApplyFilter jsfile string
  | Adjust jsfile string
  | RemoveBackground jsfile
  | FillMasked jsfile "nat \<times> nat \<times> bitmap" string
  | Synthesize string string string
  | Animate string string "jsfile option"

text \<open>\<^verbatim>\<open>ToolMode\<close> (App.tsx 56).\<close>

datatype toolMode =
  ToolRetouch | ToolMagic | ToolAdjust | ToolFilters | ToolCrop | ToolGenerate | ToolVideo
  | ToolAnalyze

text \<open>
  The component state of \<^verbatim>\<open>App\<close>: every \<^verbatim>\<open>useState\<close> cell and \<^verbatim>\<open>useRef\<close> cell the
  history store and the mask pipeline read or write.  \<open>timers\<close> holds the pending
  \<^verbatim>\<open>setTimeout\<close> callbacks of \<^verbatim>\<open>addToast\<close> (delay in ms, toast id), and
  \<open>remoteCalls\<close> is a ghost log of the requests dispatched so far.
\<close>

record state =
  history :: "jsfile list"
  historyIndex :: int
  activeTool :: toolMode
  prompt :: string
  isLoading :: bool
  toasts :: "toastMessage list"
  timers :: "(nat \<times> int) list"
  editHotspot :: "(int \<times> int) option"
  displayHotspot :: "(rat \<times> rat) option"
  crop :: "(rat \<times> rat \<times> rat \<times> rat) option"
  completedCrop :: "(rat \<times> rat \<times> rat \<times> rat) option"
  magicPrompt :: string
  isMasking :: bool
  maskDataUrl :: "bitmap option"
  brushSize :: rat
  videoResult :: "string option"
  analysisResult :: "string option"
  groundingChunks :: "string list option"
  maskCanvas :: "canvas option"
  isDrawing :: bool
  lastPosition :: "(rat \<times> rat) option"
  remoteCalls :: "request list"

text \<open>The initial values of the \<^verbatim>\<open>useState\<close> and \<^verbatim>\<open>useRef\<close> calls (App.tsx 66-102).\<close>

definition initial :: state where
  "initial = \<lparr> history = [], historyIndex = -1, activeTool = ToolRetouch, prompt = [],
     isLoading = False, toasts = [], timers = [], editHotspot = None, displayHotspot = None,
     crop = None, completedCrop = None, magicPrompt = [], isMasking = False,
     maskDataUrl = None, brushSize = 40, videoResult = None, analysisResult = None,
     groundingChunks = None, maskCanvas = None, isDrawing = False,
     lastPosition = None, remoteCalls = [] \<rparr>"

text \<open>
  A callback created during a render closes over the values \<^verbatim>\<open>history\<close> and
  \<^verbatim>\<open>historyIndex\<close> had in that render; it keeps them however the state changes
  afterwards.
\<close>

type_synonym capture = "jsfile list \<times> int"

definition rendered :: "state \<Rightarrow> capture" where
  "rendered s = (history s, historyIndex s)"

text \<open>
  \<^verbatim>\<open>history[historyIndex] ?? null\<close>: an index outside the array reads \<^verbatim>\<open>undefined\<close>,
  which \<^verbatim>\<open>??\<close> turns into \<^verbatim>\<open>null\<close>.
\<close>

definition imageAt :: "capture \<Rightarrow> jsfile option" where
  "imageAt cap =
     (if 0 \<le> snd cap \<and> snd cap < int (length (fst cap))
      then Some (fst cap ! nat (snd cap)) else None)"

definition currentImage :: "state \<Rightarrow> jsfile option" where
  "currentImage s = imageAt (rendered s)"

definition originalImage :: "state \<Rightarrow> jsfile option" where
  "originalImage s = (case history s of [] \<Rightarrow> None | f # _ \<Rightarrow> Some f)"

section \<open>Edit history store\<close>

text \<open>
  \<^verbatim>\<open>Array.prototype.slice(0, end)\<close>: a negative \<open>end\<close> counts from the end of the
  array and is clamped at 0; an \<open>end\<close> beyond the length is clamped to the length.
\<close>

definition slice0 :: "'a list \<Rightarrow> int \<Rightarrow> 'a list" where
  "slice0 xs e =
     (if e < 0 then take (nat (int (length xs) + e)) xs else take (nat e) xs)"

text \<open>
  \<^verbatim>\<open>addToast\<close> (App.tsx 170-174): append the toast and arm a 4000 ms timer that
  removes every toast carrying the same id.
\<close>

definition addToast :: "int \<Rightarrow> string \<Rightarrow> toastType \<Rightarrow> state \<Rightarrow> state" where
  "addToast now msg ty s =
     s\<lparr> toasts := toasts s @ [\<lparr> tid = now, message = msg, ttype = ty \<rparr>],
        timers := timers s @ [(4000, now)] \<rparr>"

text \<open>The timer callback of \<^verbatim>\<open>addToast\<close>, and \<^verbatim>\<open>removeToast\<close> of the container.\<close>

definition expireToast :: "int \<Rightarrow> state \<Rightarrow> state" where
  "expireToast i s =
     s\<lparr> toasts := filter (\<lambda>t. tid t \<noteq> i) (toasts s),
        timers := filter (\<lambda>(d, j). j \<noteq> i) (timers s) \<rparr>"

text \<open>
  \<^verbatim>\<open>addToHistory\<close> (App.tsx 178-189), a \<^verbatim>\<open>useCallback\<close> with dependencies
  \<^verbatim>\<open>[history, historyIndex]\<close>.  The new sequence is computed from the values the
  callback captured, \<open>cap\<close>, and written with \<^verbatim>\<open>setHistory\<close> and
  \<^verbatim>\<open>setHistoryIndex\<close> over whatever the state holds when it runs, \<open>s\<close>.  The toast
  is added with a functional update and so extends the current list.
\<close>

definition addToHistory :: "capture \<Rightarrow> int \<Rightarrow> jsfile \<Rightarrow> state \<Rightarrow> state" where
  "addToHistory cap now f s =
     (let newHist = slice0 (fst cap) (snd cap + 1) @ [f]
      in addToast now ''Layer added'' TSuccess
           (s\<lparr> history := newHist,
               historyIndex := int (length newHist) - 1,
               editHotspot := None, displayHotspot := None,
               crop := None, completedCrop := None,
               isMasking := False, maskDataUrl := None,
               videoResult := None, analysisResult := None \<rparr>))"

text \<open>\<^verbatim>\<open>handleUndo\<close> and \<^verbatim>\<open>handleRedo\<close> (App.tsx 290-291).\<close>

definition handleUndo :: "state \<Rightarrow> state" where
  "handleUndo s =
     (if historyIndex s > 0 then s\<lparr> historyIndex := historyIndex s - 1 \<rparr> else s)"

definition handleRedo :: "state \<Rightarrow> state" where
  "handleRedo s =
     (if historyIndex s < int (length (history s)) - 1
      then s\<lparr> historyIndex := historyIndex s + 1 \<rparr> else s)"

section \<open>Session persistence (utils/storage)\<close>

text \<open>\<^verbatim>\<open>SessionState\<close>, the record kept in the IndexedDB object store.\<close>

record sessionState =
  sid :: string
  shistory :: "jsfile list"
  currentIndex :: int
  timestamp :: int

text \<open>
  The object store \<^verbatim>\<open>session\<close> of the database \<^verbatim>\<open>PixshopDB\<close>, keyed by the \<^verbatim>\<open>id\<close>
  field.  Whether opening the database and the request on it succeed is decided
  by the browser, so each operation receives that outcome as an argument.
\<close>

type_synonym objectStore = "string \<rightharpoonup> sessionState"

datatype exn = Error string | Thrown

datatype idbOutcome = IdbOk | IdbFails exn

definition saveSession ::
  "idbOutcome \<Rightarrow> int \<Rightarrow> jsfile list \<Rightarrow> int \<Rightarrow> objectStore \<Rightarrow> exn + objectStore" where
  "saveSession out now hist idx db =
     (case out of
        IdbFails e \<Rightarrow> Inl e
      | IdbOk \<Rightarrow>
          Inr (db(''current_session'' \<mapsto>
                 \<lparr> sid = ''current_session'', shistory = hist,
                   currentIndex = idx, timestamp = now \<rparr>)))"


definition clearSession :: "idbOutcome \<Rightarrow> objectStore \<Rightarrow> exn + objectStore" where
  "clearSession out db =
     (case out of
        IdbFails e \<Rightarrow> Inl e
      | IdbOk \<Rightarrow> Inr (db(''current_session'' := None)))"

text \<open>
  The application together with what surrounds it: the object store, the lines
  written with \<^verbatim>\<open>console.error\<close> / \<^verbatim>\<open>console.warn\<close>, and the promise rejections
  that no handler caught.
\<close>

record world =
  app :: state
  db :: objectStore
  console :: "exn list"
  unhandled :: "exn list"

text \<open>
  The save effect (App.tsx 120-122), run by React after a render in which
  \<^verbatim>\<open>history\<close> or \<^verbatim>\<open>historyIndex\<close> changed.  The promise is not awaited; a rejection
  goes to \<^verbatim>\<open>console.error\<close>.
\<close>

definition saveEffect :: "idbOutcome \<Rightarrow> int \<Rightarrow> world \<Rightarrow> world" where
  "saveEffect out now w =
     (if length (history (app w)) > 0
      then (case saveSession out now (history (app w)) (historyIndex (app w)) (db w) of
              Inl e \<Rightarrow> w\<lparr> console := console w @ [e] \<rparr>
            | Inr db' \<Rightarrow> w\<lparr> db := db' \<rparr>)
      else w)"


text \<open>
  \<^verbatim>\<open>handleClear\<close> (App.tsx 292): \<^verbatim>\<open>await clearSession()\<close> comes first and nothing
  catches its rejection, so the two setters run only when the deletion succeeded.
\<close>

definition handleClear :: "idbOutcome \<Rightarrow> world \<Rightarrow> world" where
  "handleClear out w =
     (case clearSession out (db w) of
        Inl e \<Rightarrow> w\<lparr> unhandled := unhandled w @ [e] \<rparr>
      | Inr db' \<Rightarrow>
          w\<lparr> db := db', app := (app w)\<lparr> history := [], historyIndex := -1 \<rparr> \<rparr>)"

text \<open>
  The four operations of the history store as the user triggers them from the
  current render (an upload or an applied crop for the append), each with what
  the environment supplies during it: the clock, and the outcomes of
  the IndexedDB requests of \<^verbatim>\<open>clearSession\<close> and of the save effect that follows.
\<close>

datatype storeOp = Append jsfile | Undo | Redo | Reset

record env =
  clock :: int
  clearOut :: idbOutcome
  saveOut :: idbOutcome

definition applyOp :: "env \<Rightarrow> storeOp \<Rightarrow> world \<Rightarrow> world" where
  "applyOp ev op w =
     (case op of
        Append f \<Rightarrow> w\<lparr> app := addToHistory (rendered (app w)) (clock ev) f (app w) \<rparr>
      | Undo \<Rightarrow> w\<lparr> app := handleUndo (app w) \<rparr>
      | Redo \<Rightarrow> w\<lparr> app := handleRedo (app w) \<rparr>
      | Reset \<Rightarrow> handleClear (clearOut ev) w)"

text \<open>
  The effect's dependency array is \<^verbatim>\<open>[history, historyIndex]\<close>: it fires when the
  array was replaced (by \<^verbatim>\<open>setHistory\<close>, whatever its contents) or the index
  changed.
\<close>

definition depsChanged :: "env \<Rightarrow> storeOp \<Rightarrow> world \<Rightarrow> world \<Rightarrow> bool" where
  "depsChanged ev op w w' =
     (case op of
        Append f \<Rightarrow> True
      | Reset \<Rightarrow> clearOut ev = IdbOk
      | _ \<Rightarrow> historyIndex (app w') \<noteq> historyIndex (app w))"

definition step :: "world \<Rightarrow> env \<times> storeOp \<Rightarrow> world" where
  "step w eo =
     (let w' = applyOp (fst eo) (snd eo) w
      in if depsChanged (fst eo) (snd eo) w w'
         then saveEffect (saveOut (fst eo)) (clock (fst eo)) w' else w')"

definition run :: "(env \<times> storeOp) list \<Rightarrow> world \<Rightarrow> world" where
  "run evs w = foldl step w evs"

text \<open>The invariant of section 4.1 of the specification, on the component state.\<close>

definition cursorInv :: "state \<Rightarrow> bool" where
  "cursorInv s =
     (-1 \<le> historyIndex s \<and> historyIndex s \<le> int (length (history s)) - 1 \<and>
      ((length (history s) = 0) = (historyIndex s = -1)))"

section \<open>Remote generation (services/geminiService)\<close>

text \<open>A settled promise: rejected with what was thrown, or resolved with a value.\<close>

datatype 'a promise = Rejected exn | Resolved 'a

text \<open>
  What \<^verbatim>\<open>handleApiResponse\<close> reads of a \<^verbatim>\<open>GenerateContentResponse\<close>:
  \<^verbatim>\<open>promptFeedback?.blockReason\<close>, \<^verbatim>\<open>candidates?.[0]?.content?.parts\<close> with the
  \<^verbatim>\<open>inlineData\<close> (MIME type, base64 data) of each part, and \<^verbatim>\<open>text\<close>.
\<close>

record response =
  blockReason :: "string option"
  parts :: "(string \<times> string) option list option"
  rtext :: "string option"

text \<open>A string is truthy when it is present and not empty.\<close>

definition truthy :: "string option \<Rightarrow> bool" where
  "truthy x = (case x of None \<Rightarrow> False | Some v \<Rightarrow> v \<noteq> [])"

fun firstInline :: "(string \<times> string) option list \<Rightarrow> (string \<times> string) option" where
  "firstInline [] = None"
| "firstInline (None # ps) = firstInline ps"
| "firstInline (Some d # ps) = Some d"

definition noImage :: "response \<Rightarrow> string \<Rightarrow> string promise" where
  "noImage r context =
     Rejected (Error (''No image generated for '' @ context @ ''. Model output: '' @
       (if truthy (rtext r) then the (rtext r) else ''Unknown error'')))"

definition handleApiResponse :: "response \<Rightarrow> string \<Rightarrow> string promise" where
  "handleApiResponse r context =
     (if truthy (blockReason r)
      then Rejected (Error (''Request blocked: '' @ the (blockReason r)))
      else (case parts r of
              None \<Rightarrow> noImage r context
            | Some ps \<Rightarrow>
                (case firstInline ps of
                   None \<Rightarrow> noImage r context
                 | Some (mimeType, d) \<Rightarrow>
                     Resolved (''data:'' @ mimeType @ '';base64,'' @ d))))"

text \<open>
  The six image operations share one shape: build the parts, await
  \<^verbatim>\<open>ai.models.generateContent\<close>, hand the response to \<^verbatim>\<open>handleApiResponse\<close> with
  the operation's context string.  The argument is how the awaited part settled
  (a rejection covers a failed \<^verbatim>\<open>fileToPart\<close> as well as a failed request).
\<close>

definition generateImage :: "string \<Rightarrow> response promise \<Rightarrow> string promise" where
  "generateImage context settled =
     (case settled of
        Rejected e \<Rightarrow> Rejected e
      | Resolved r \<Rightarrow> handleApiResponse r context)"

text \<open>The video operation handle: the \<^verbatim>\<open>done\<close> flag and the URI of the first video.\<close>

record operation =
  opDone :: bool
  uri :: "string option"

text \<open>
  The polling loop of \<^verbatim>\<open>generateVeoVideo\<close>:
  \<^verbatim>\<open>while (!operation.done) { await sleep(5000); operation = await getVideosOperation(..) }\<close>.
  \<open>poll i\<close> is how the \<open>i\<close>-th request to \<^verbatim>\<open>getVideosOperation\<close> settles.  The loop
  has no other exit, so it is a partial function: \<open>None\<close> is a loop that never
  ends.  The result carries the number of requests made so far and the sum of
  the delays asked of \<^verbatim>\<open>setTimeout\<close>, in milliseconds.
\<close>

partial_function (option) pollLoop ::
  "(nat \<Rightarrow> operation promise) \<Rightarrow> nat \<Rightarrow> nat \<Rightarrow> operation \<Rightarrow> (operation promise \<times> nat \<times> nat) option"
  where
  "pollLoop poll i slept opn =
     (if opDone opn then Some (Resolved opn, i, slept)
      else (case poll i of
              Rejected e \<Rightarrow> Some (Rejected e, Suc i, slept + 5000)
            | Resolved opn' \<Rightarrow> pollLoop poll (Suc i) (slept + 5000) opn'))"

text \<open>
  \<^verbatim>\<open>generateVeoVideo\<close>: \<open>started\<close> is how \<^verbatim>\<open>ai.models.generateVideos\<close> settled (either
  branch of the \<^verbatim>\<open>if (image)\<close>), \<open>apiKey\<close> is \<^verbatim>\<open>process.env.API_KEY\<close>.
\<close>

definition generateVeoVideo ::
  "string \<Rightarrow> operation promise \<Rightarrow> (nat \<Rightarrow> operation promise) \<Rightarrow> string promise option" where
  "generateVeoVideo apiKey started poll =
     (case started of
        Rejected e \<Rightarrow> Some (Rejected e)
      | Resolved opn \<Rightarrow>
          (case pollLoop poll 0 0 opn of
             None \<Rightarrow> None
           | Some (Rejected e, _) \<Rightarrow> Some (Rejected e)
           | Some (Resolved opn', _) \<Rightarrow>
               (if truthy (uri opn')
                then Some (Resolved (the (uri opn') @ ''&key='' @ apiKey))
                else Some (Rejected (Error ''Video generation failed or no URI returned.'')))))"

text \<open>What makes a poll the last one: the request fails, or it reports \<^verbatim>\<open>done\<close>.\<close>

definition stops :: "operation promise \<Rightarrow> bool" where
  "stops p = (case p of Rejected e \<Rightarrow> True | Resolved opn \<Rightarrow> opDone opn)"

section \<open>Actions of the editor\<close>

text \<open>
  \<^verbatim>\<open>dataURLtoFile\<close> (App.tsx 44-54).  \<^verbatim>\<open>split(',')\<close> yields the pieces between
  commas; the regular expression \<^verbatim>\<open>/:(.*?);/\<close> matches at the first colon from which
  a semicolon is reached without crossing a line terminator (line feed or
  carriage return; strings are byte strings here), and captures what lies
  between.  \<^verbatim>\<open>atob\<close> is the browser's base64 decoder, taken as a parameter.
\<close>

fun splitComma :: "string \<Rightarrow> string list" where
  "splitComma [] = [[]]"
| "splitComma (c # cs) =
     (if c = CHR '','' then [] # splitComma cs
      else (case splitComma cs of [] \<Rightarrow> [[c]] | p # ps \<Rightarrow> (c # p) # ps))"

fun uptoSemicolon :: "string \<Rightarrow> string option" where
  "uptoSemicolon [] = None"
| "uptoSemicolon (c # cs) =
     (if c = CHR '';'' then Some []
      else if c = CHR 0x0A \<or> c = CHR 0x0D then None
      else map_option ((#) c) (uptoSemicolon cs))"

fun mimeMatch :: "string \<Rightarrow> string option" where
  "mimeMatch [] = None"
| "mimeMatch (c # cs) =
     (if c = CHR '':''
      then (case uptoSemicolon cs of Some m \<Rightarrow> Some m | None \<Rightarrow> mimeMatch cs)
      else mimeMatch cs)"

definition dataURLtoFile :: "(string \<Rightarrow> exn + string) \<Rightarrow> string \<Rightarrow> string \<Rightarrow> exn + jsfile" where
  "dataURLtoFile atob dataurl filename =
     (let arr = splitComma dataurl
      in if length arr < 2 then Inl (Error ''Invalid data URL'')
         else (case mimeMatch (arr ! 0) of
                 None \<Rightarrow> Inl (Error ''Could not parse MIME type from data URL'')
               | Some m \<Rightarrow>
                   (if m = [] then Inl (Error ''Could not parse MIME type from data URL'')
                    else (case atob (arr ! 1) of
                            Inl e \<Rightarrow> Inl e
                          | Inr bstr \<Rightarrow> Inr (File filename m bstr)))))"

text \<open>\<^verbatim>\<open>handleError\<close> (App.tsx 176).\<close>

definition handleError :: "int \<Rightarrow> exn \<Rightarrow> state \<Rightarrow> state" where
  "handleError now e s =
     addToast now (case e of Error m \<Rightarrow> m | Thrown \<Rightarrow> ''Unknown error'') TError s"

text \<open>
  \<^verbatim>\<open>handleGenAction\<close> (App.tsx 192-199) is an async function of the render that
  created it: it reads \<^verbatim>\<open>currentImage\<close> and calls \<^verbatim>\<open>addToHistory\<close> of that render,
  captured in \<open>cap\<close>.  The thunk \<^verbatim>\<open>action\<close> is given by the request it sends for
  the captured image and by how its promise settles.  The part up to the
  \<^verbatim>\<open>await\<close> runs at once (\<open>None\<close>: the early return); calling the thunk is logged
  in \<open>remoteCalls\<close>.
\<close>

definition handleGenActionStart :: "capture \<Rightarrow> (jsfile \<Rightarrow> request) \<Rightarrow> state \<Rightarrow> state option" where
  "handleGenActionStart cap mkRequest s =
     (case imageAt cap of
        None \<Rightarrow> None
      | Some img \<Rightarrow>
          Some (s\<lparr> isLoading := True, remoteCalls := remoteCalls s @ [mkRequest img] \<rparr>))"

text \<open>
  The continuation after the \<^verbatim>\<open>await\<close> runs when the promise has settled, on
  the state as it is by then: the \<^verbatim>\<open>try\<close> or the \<^verbatim>\<open>catch\<close> block, then \<^verbatim>\<open>finally\<close>.
\<close>

definition handleGenActionResume ::
  "capture \<Rightarrow> int \<Rightarrow> (string \<Rightarrow> exn + string) \<Rightarrow> string promise \<Rightarrow> string \<Rightarrow> state \<Rightarrow> state" where
  "handleGenActionResume cap now atob settled filename s =
     (case settled of
        Rejected e \<Rightarrow> (handleError now e s)\<lparr> isLoading := False \<rparr>
      | Resolved url \<Rightarrow>
          (case dataURLtoFile atob url filename of
             Inl e \<Rightarrow> (handleError now e s)\<lparr> isLoading := False \<rparr>
           | Inr f \<Rightarrow> (addToHistory cap now f s)\<lparr> isLoading := False \<rparr>))"

text \<open>
  The whole action when it is started from the current render and nothing else
  touches the state while the promise is pending (\<open>settled = None\<close>: it never
  settles).
\<close>

definition handleGenAction ::
  "int \<Rightarrow> (string \<Rightarrow> exn + string) \<Rightarrow> (jsfile \<Rightarrow> request) \<Rightarrow> string promise option \<Rightarrow>
   string \<Rightarrow> state \<Rightarrow> state" where
  "handleGenAction now atob mkRequest settled filename s =
     (case handleGenActionStart (rendered s) mkRequest s of
        None \<Rightarrow> s
      | Some s1 \<Rightarrow>
          (case settled of
             None \<Rightarrow> s1
           | Some r \<Rightarrow> handleGenActionResume (rendered s) now atob r filename s1))"

text \<open>
  The seven remote generation actions as the panels wire them to
  \<^verbatim>\<open>handleGenAction\<close> (App.tsx 201-224, 334, 467-504), by the request each one
  sends.
\<close>

datatype action =
    Retouch
  | Filter string
  | Adjustment string
  | BackgroundRemoval
  | Fill "nat \<times> nat \<times> bitmap" string
  | Generate string string string
  | Video string string bool

definition requestOf :: "action \<Rightarrow> state \<Rightarrow> jsfile \<Rightarrow> request" where
  "requestOf a s img =
     (case a of
        Retouch \<Rightarrow> EditAt img (prompt s) (the (editHotspot s))
      | Filter p \<Rightarrow> ApplyFilter img p
      | Adjustment p \<Rightarrow> Adjust img p
      | BackgroundRemoval \<Rightarrow> RemoveBackground img
      | Fill m p \<Rightarrow> FillMasked img m p
      | Generate p r z \<Rightarrow> Synthesize p r z
      | Video p r useImage \<Rightarrow> Animate p r (if useImage then Some img else None))"

text \<open>\<^verbatim>\<open>handleRetouch\<close> (App.tsx 201-205).\<close>

definition handleRetouch ::
  "int \<Rightarrow> (string \<Rightarrow> exn + string) \<Rightarrow> string promise option \<Rightarrow> string \<Rightarrow> state \<Rightarrow> state" where
  "handleRetouch now atob settled filename s =
     (if editHotspot s = None
      then addToast now ''Click on the image to select an area.'' TError s
      else if prompt s = [] then addToast now ''Please describe the edit.'' TError s
      else handleGenAction now atob (requestOf Retouch s) settled filename s)"

text \<open>\<^verbatim>\<open>handleAnalysis\<close> (App.tsx 239-247), given how \<^verbatim>\<open>analyzeImage\<close> settled.\<close>

definition handleAnalysis ::
  "int \<Rightarrow> (string \<times> string list option) promise \<Rightarrow> state \<Rightarrow> state" where
  "handleAnalysis now settled s =
     (case currentImage s of
        None \<Rightarrow> s
      | Some img \<Rightarrow>
          (case settled of
             Resolved (txt, chunks) \<Rightarrow>
               s\<lparr> analysisResult := Some txt, groundingChunks := chunks, isLoading := False \<rparr>
           | Rejected e \<Rightarrow> (handleError now e (s\<lparr> isLoading := True \<rparr>))\<lparr> isLoading := False \<rparr>))"

text \<open>
  The prop \<^verbatim>\<open>onAnalyzeVideo\<close> of the analyze panel (App.tsx 493):
  \<^verbatim>\<open>analyzeVideo(f, p).then(setAnalysisResult)\<close>, with no rejection handler.
\<close>

definition onAnalyzeVideo :: "string promise \<Rightarrow> state \<Rightarrow> state" where
  "onAnalyzeVideo settled s =
     (case settled of
        Resolved txt \<Rightarrow> s\<lparr> analysisResult := Some txt \<rparr>
      | Rejected e \<Rightarrow> s)"

text \<open>
  The line ``n Sources Found'' of the results area (App.tsx 508-514): rendered
  when the analyze tool is active, \<^verbatim>\<open>analysisResult\<close> is truthy and
  \<^verbatim>\<open>groundingChunks\<close> is not null; the value is the number shown.
\<close>

definition sourcesFound :: "state \<Rightarrow> nat option" where
  "sourcesFound s =
     (if activeTool s = ToolAnalyze \<and> truthy (analysisResult s)
      then map_option length (groundingChunks s) else None)"

section \<open>Mask capture pipeline\<close>

text \<open>
  The events React delivers to \<^verbatim>\<open>handleMaskDraw\<close>.  A mouse event has no \<^verbatim>\<open>touches\<close>
  property and carries \<^verbatim>\<open>clientX\<close>, \<^verbatim>\<open>clientY\<close>; a touch event carries the list
  \<^verbatim>\<open>touches\<close> of the points still in contact with the surface.
\<close>

datatype evtype =
  mousedown | mousemove | mouseup | mouseleave | touchstart | touchmove | touchend

datatype event = MouseEvent evtype rat rat | TouchEvent evtype "(rat \<times> rat) list"

fun etype :: "event \<Rightarrow> evtype" where
  "etype (MouseEvent t x y) = t"
| "etype (TouchEvent t ps) = t"

text \<open>
  \<^verbatim>\<open>e.touches ? e.touches[0].clientX : e.clientX\<close>: a touch list is an object and
  so truthy even when empty, and reading \<^verbatim>\<open>clientX\<close> of the missing first
  element throws a \<^verbatim>\<open>TypeError\<close>.
\<close>

fun clientPoint :: "event \<Rightarrow> exn + (rat \<times> rat)" where
  "clientPoint (MouseEvent t x y) = Inr (x, y)"
| "clientPoint (TouchEvent t []) =
     Inl (Error ''TypeError: cannot read properties of undefined'')"
| "clientPoint (TouchEvent t (p # ps)) = Inr p"

text \<open>
  The paint of both the stamp (\<^verbatim>\<open>fillStyle\<close>) and the stroke (\<^verbatim>\<open>strokeStyle\<close>):
  \<^verbatim>\<open>rgba(255,255,255,0.8)\<close>.
\<close>

definition paintColour :: colour where
  "paintColour = \<lparr> cred = 255, cgreen = 255, cblue = 255, calpha = 8 / 10 \<rparr>"

definition blank :: "nat \<Rightarrow> nat \<Rightarrow> bitmap" where
  "blank w h = \<lparr> bwidth = w, bheight = h, drawn = [] \<rparr>"

text \<open>The paint a drawing call applies, if it applies any.\<close>

fun paintOf :: "drawCmd \<Rightarrow> colour option" where
  "paintOf (FillPath col sh) = Some col"
| "paintOf (StrokePath col w cap sh) = Some col"
| "paintOf (ClearRect x y w h) = None"

text \<open>A drawing call on the context of a canvas.\<close>

definition draw :: "drawCmd \<Rightarrow> canvas \<Rightarrow> canvas" where
  "draw d c = c\<lparr> surface := (surface c)\<lparr> drawn := drawn (surface c) @ [d] \<rparr> \<rparr>"

text \<open>
  \<^verbatim>\<open>handleMaskDraw\<close> (App.tsx 263-288).  The coordinates are computed before the
  context is fetched, so the \<^verbatim>\<open>TypeError\<close> of an empty touch list comes first.
  The last branch takes every event type that is neither a press nor a move.
\<close>

definition handleMaskDraw :: "event \<Rightarrow> state \<Rightarrow> exn + state" where
  "handleMaskDraw e s =
     (if \<not> isMasking s then Inr s
      else (case maskCanvas s of
              None \<Rightarrow> Inr s
            | Some c \<Rightarrow>
                (case clientPoint e of
                   Inl err \<Rightarrow> Inl err
                 | Inr (cx, cy) \<Rightarrow>
                     (let x = cx - rectLeft c; y = cy - rectTop c
                      in if \<not> ctx2d c then Inr s
                         else if etype e = mousedown \<or> etype e = touchstart
                         then Inr (s\<lparr> isDrawing := True, lastPosition := Some (x, y),
                                     maskCanvas := Some
                                       (draw (FillPath paintColour (Arc x y (brushSize s / 2))) c) \<rparr>)
                         else if etype e = mousemove \<or> etype e = touchmove
                         then (if \<not> isDrawing s then Inr s
                               else (case lastPosition s of
                                       None \<Rightarrow> Inl (Error ''TypeError: cannot read properties of null'')
                                     | Some (lx, ly) \<Rightarrow>
                                         Inr (s\<lparr> lastPosition := Some (x, y),
                                                 maskCanvas := Some
                                                   (draw (StrokePath paintColour (brushSize s) RoundCap
                                                            (Line lx ly x y)) c) \<rparr>)))
                         else Inr (s\<lparr> isDrawing := False,
                                     maskDataUrl := Some (surface c) \<rparr>)))))"

text \<open>
  A sequence of events.  An exception thrown by the handler is not caught by
  the component: that event changes nothing, the exception is reported, and
  later events are still delivered.
\<close>

fun handleMaskDraws :: "event list \<Rightarrow> state \<Rightarrow> state \<times> exn list" where
  "handleMaskDraws [] s = (s, [])"
| "handleMaskDraws (e # es) s =
     (case handleMaskDraw e s of
        Inl err \<Rightarrow> (case handleMaskDraws es s of (s', errs) \<Rightarrow> (s', err # errs))
      | Inr s' \<Rightarrow> handleMaskDraws es s')"

text \<open>
  The props \<^verbatim>\<open>onToggleMasking\<close> and \<^verbatim>\<open>onClearMask\<close> of the magic panel
  (App.tsx 470-471).
\<close>

definition onToggleMasking :: "state \<Rightarrow> state" where
  "onToggleMasking s = s\<lparr> isMasking := \<not> isMasking s \<rparr>"

definition onClearMask :: "state \<Rightarrow> state" where
  "onClearMask s =
     (case maskCanvas s of
        None \<Rightarrow> s\<lparr> maskDataUrl := None \<rparr>
      | Some c \<Rightarrow>
          (if ctx2d c
           then s\<lparr> maskCanvas := Some (draw (ClearRect 0 0 9999 9999) c), maskDataUrl := None \<rparr>
           else s\<lparr> maskDataUrl := None \<rparr>))"

text \<open>
  The resize effect (App.tsx 142-155): assigning \<^verbatim>\<open>canvas.width\<close> and
  \<^verbatim>\<open>canvas.height\<close> resets the bitmap to a blank one of the displayed size of
  the image.
\<close>

definition syncCanvas :: "nat \<Rightarrow> nat \<Rightarrow> state \<Rightarrow> state" where
  "syncCanvas w h s =
     (case maskCanvas s of
        None \<Rightarrow> s
      | Some c \<Rightarrow> s\<lparr> maskCanvas := Some (c\<lparr> surface := blank w h \<rparr>) \<rparr>)"



section \<open>Properties of the edit history store\<close>

lemma slice0_take: "0 \<le> e \<Longrightarrow> slice0 xs e = take (nat e) xs"
  by (simp add: slice0_def)

lemma history_addToHistory:
  "history (addToHistory cap t f s) = slice0 (fst cap) (snd cap + 1) @ [f]"
  by (simp add: addToHistory_def addToast_def Let_def)

lemma historyIndex_addToHistory:
  "historyIndex (addToHistory cap t f s) =
     int (length (history (addToHistory cap t f s))) - 1"
  by (simp add: addToHistory_def addToast_def Let_def)

lemma funpow_handleUndo:
  "int k \<le> historyIndex s \<Longrightarrow>
   (handleUndo ^^ k) s = s\<lparr> historyIndex := historyIndex s - int k \<rparr>"
proof (induction k)
  case 0 then show ?case by simp
next
  case (Suc k)
  then have ih: "(handleUndo ^^ k) s = s\<lparr> historyIndex := historyIndex s - int k \<rparr>" by simp
  have pos: "historyIndex s - int k > 0" using Suc.prems by simp
  have "(handleUndo ^^ Suc k) s = handleUndo (s\<lparr> historyIndex := historyIndex s - int k \<rparr>)"
    by (simp only: funpow.simps o_apply ih)
  also have "\<dots> = s\<lparr> historyIndex := historyIndex s - int (Suc k) \<rparr>"
    unfolding handleUndo_def using pos by (simp add: algebra_simps)
  finally show ?case .
qed

text \<open>
  An append made by the callback of the current render, after undo has run
  \<open>k \<le> c\<close> times from cursor \<open>c\<close>: it keeps the snapshots up to the cursor,
  discards the \<open>n - 1 - c + k\<close> behind it, pushes the new snapshot and puts the
  cursor on the new last index; redo is then a no-op.
\<close>

lemma fresh_append_cuts_branch:
  assumes "0 \<le> historyIndex s" "historyIndex s \<le> int (length (history s)) - 1"
    and "int k \<le> historyIndex s"
  shows "let u = (handleUndo ^^ k) s; a = addToHistory (rendered u) t f u;
             kept = take (nat (historyIndex u) + 1) (history u);
             cut = drop (nat (historyIndex u) + 1) (history u)
         in history u = history s \<and> historyIndex u = historyIndex s - int k \<and>
            history u = kept @ cut \<and>
            int (length cut) = int (length (history s)) - 1 - historyIndex s + int k \<and>
            history a = kept @ [f] \<and>
            historyIndex a = int (length (history a)) - 1 \<and>
            historyIndex a = historyIndex u + 1 \<and>
            handleRedo a = a"
proof -
  define u where "u = (handleUndo ^^ k) s"
  define a where "a = addToHistory (rendered u) t f u"
  have u: "u = s\<lparr> historyIndex := historyIndex s - int k \<rparr>"
    unfolding u_def using assms(3) by (rule funpow_handleUndo)
  have ge: "0 \<le> historyIndex u" using u assms by simp
  have sl: "slice0 (history u) (historyIndex u + 1) = take (nat (historyIndex u) + 1) (history u)"
    using ge by (simp add: slice0_take nat_add_distrib)
  have ha: "history a = take (nat (historyIndex u) + 1) (history u) @ [f]"
    unfolding a_def by (simp add: history_addToHistory rendered_def sl)
  have ia: "historyIndex a = int (length (history a)) - 1"
    unfolding a_def by (rule historyIndex_addToHistory)
  have le: "nat (historyIndex u) + 1 \<le> length (history u)"
    using u assms by simp
  have len: "int (length (history a)) = historyIndex u + 2"
    using ha ge le by simp
  have cut: "int (length (drop (nat (historyIndex u) + 1) (history u))) =
      int (length (history s)) - 1 - historyIndex s + int k"
    using u assms by simp
  have "history u = history s \<and> historyIndex u = historyIndex s - int k \<and>
     history u = take (nat (historyIndex u) + 1) (history u) @ drop (nat (historyIndex u) + 1) (history u) \<and>
     int (length (drop (nat (historyIndex u) + 1) (history u))) = int (length (history s)) - 1 - historyIndex s + int k \<and>
     history a = take (nat (historyIndex u) + 1) (history u) @ [f] \<and>
     historyIndex a = int (length (history a)) - 1 \<and>
     historyIndex a = historyIndex u + 1 \<and>
     handleRedo a = a"
    using u ha ia len cut by (simp add: handleRedo_def)
  then show ?thesis unfolding Let_def u_def a_def .
qed

text \<open>
  Claim C1 says that an append on a history with cursor \<open>c\<close> discards the
  snapshots behind \<open>c\<close>, pushes, and moves the cursor to the new last index.
  \<^verbatim>\<open>addToHistory\<close> computes the new sequence from the history and cursor its
  render saw, not from the store as it is when the append runs, and two paths
  run it late.  First, undo is not held back while a generation is pending: on
  \<open>[A, B]\<close> with the cursor on \<open>B\<close>, a filter is requested, undo moves the cursor
  to \<open>A\<close>, and the result \<open>F\<close> is then appended from the captured values, giving
  \<open>[A, B, F]\<close> where the claim gives \<open>[A, F]\<close>.  Second, the voice assistant keeps
  the callbacks of the render that mounted it (its effect has no
  dependencies): mounted on \<open>[A]\<close>, its first command appends \<open>G\<close>, and its
  second command, on the store \<open>[A, G]\<close> with the cursor on \<open>G\<close>, sends \<open>A\<close> again
  and overwrites \<open>G\<close>, giving \<open>[A, R]\<close> where the claim gives \<open>[A, G, R]\<close>.  The
  base64 decoder is given at the one string it is applied to, \<^verbatim>\<open>AAAA\<close>, which
  decodes to three zero bytes.
\<close>

theorem stale_append_breaks_branch_cut:
  "let A = File ''a.png'' ''image/png'' []; B = File ''b.png'' ''image/png'' [];
       F = File ''filt.png'' ''image/png'' [CHR 0x00, CHR 0x00, CHR 0x00];
       G = File ''filter.png'' ''image/png'' [CHR 0x00, CHR 0x00, CHR 0x00];
       R = File ''rm-bg.png'' ''image/png'' [CHR 0x00, CHR 0x00, CHR 0x00];
       url = ''data:image/png;base64,AAAA'';
       atob = (\<lambda>b. if b = ''AAAA'' then Inr [CHR 0x00, CHR 0x00, CHR 0x00] else Inl Thrown);
       s0 = initial\<lparr> history := [A, B], historyIndex := 1 \<rparr>;
       m0 = initial\<lparr> history := [A], historyIndex := 0 \<rparr>
   in (case handleGenActionStart (rendered s0) (requestOf (Filter ''sepia'') s0) s0 of
         None \<Rightarrow> False
       | Some s1 \<Rightarrow>
           (let s2 = handleUndo s1;
                s3 = handleGenActionResume (rendered s0) 9 atob (Resolved url) ''filt.png'' s2
            in history s2 = [A, B] \<and> historyIndex s2 = 0 \<and>
               history s3 = [A, B, F] \<and> historyIndex s3 = 2 \<and>
               history s3 \<noteq> take (nat (historyIndex s2) + 1) (history s2) @ [F])) \<and>
      (case handleGenActionStart (rendered m0) (requestOf (Filter ''retro'') m0) m0 of
         None \<Rightarrow> False
       | Some m1 \<Rightarrow>
           (let m2 = handleGenActionResume (rendered m0) 5 atob (Resolved url) ''filter.png'' m1
            in history m2 = [A, G] \<and> historyIndex m2 = 1 \<and>
               (case handleGenActionStart (rendered m0) (requestOf BackgroundRemoval m0) m2 of
                  None \<Rightarrow> False
                | Some m3 \<Rightarrow>
                    (let m4 = handleGenActionResume (rendered m0) 9 atob (Resolved url)
                                ''rm-bg.png'' m3
                     in remoteCalls m4 = [ApplyFilter A ''retro'', RemoveBackground A] \<and>
                        history m4 = [A, R] \<and> historyIndex m4 = 1 \<and>
                        history m4 \<noteq> take (nat (historyIndex m2) + 1) (history m2) @ [R]))))"
  by (simp add: Let_def initial_def rendered_def imageAt_def handleGenActionStart_def
      handleGenActionResume_def requestOf_def handleUndo_def dataURLtoFile_def
      addToHistory_def addToast_def slice0_def)

lemma cursorInv_addToHistory:
  "-1 \<le> snd cap \<Longrightarrow> cursorInv (addToHistory cap t f s)"
  by (simp add: cursorInv_def historyIndex_addToHistory history_addToHistory)

lemma cursorInv_handleUndo: "cursorInv s \<Longrightarrow> cursorInv (handleUndo s)"
  by (auto simp: cursorInv_def handleUndo_def)

lemma cursorInv_handleRedo: "cursorInv s \<Longrightarrow> cursorInv (handleRedo s)"
  by (auto simp: cursorInv_def handleRedo_def)

lemma cursorInv_handleClear: "cursorInv (app w) \<Longrightarrow> cursorInv (app (handleClear out w))"
  by (auto simp: cursorInv_def handleClear_def clearSession_def split: idbOutcome.splits)

lemma app_saveEffect: "app (saveEffect out t w) = app w"
  by (simp add: saveEffect_def saveSession_def split: idbOutcome.splits)

lemma cursorInv_step: "cursorInv (app w) \<Longrightarrow> cursorInv (app (step w eo))"
proof -
  assume inv: "cursorInv (app w)"
  have "cursorInv (app (applyOp (fst eo) (snd eo) w))"
  proof (cases "snd eo")
    case (Append f)
    moreover have "-1 \<le> snd (rendered (app w))"
      using inv by (simp add: cursorInv_def rendered_def)
    ultimately show ?thesis by (simp add: applyOp_def cursorInv_addToHistory)
  next
    case Undo then show ?thesis using inv by (simp add: applyOp_def cursorInv_handleUndo)
  next
    case Redo then show ?thesis using inv by (simp add: applyOp_def cursorInv_handleRedo)
  next
    case Reset then show ?thesis using inv by (simp add: applyOp_def cursorInv_handleClear)
  qed
  then show ?thesis by (simp add: step_def Let_def app_saveEffect)
qed

lemma cursorInv_run: "cursorInv (app w) \<Longrightarrow> cursorInv (app (run evs w))"
  unfolding run_def by (induction evs arbitrary: w) (simp_all add: cursorInv_step)

lemma cursorInv_initial: "cursorInv initial"
  by (simp add: cursorInv_def initial_def)

text \<open>
  Claim C2.  Starting from the empty state, after every prefix of every sequence
  of append, undo, redo and reset (whatever the clock reads and whether or not
  the IndexedDB requests succeed) the cursor lies in \<open>[-1, length - 1]\<close> and is
  \<open>-1\<close> exactly when the sequence is empty.  Undo and redo leave the sequence
  alone; undo moves the cursor back by one exactly when it is positive and
  otherwise changes nothing, redo moves it forward by one exactly when it is
  below the last index and otherwise changes nothing.
\<close>

theorem history_store_invariant:
  "cursorInv (app (run (take n evs) \<lparr> app = initial, db = d, console = c, unhandled = u \<rparr>)) \<and>
   history (handleUndo s) = history s \<and> history (handleRedo s) = history s \<and>
   handleUndo s = (if 0 < historyIndex s then s\<lparr> historyIndex := historyIndex s - 1 \<rparr> else s) \<and>
   handleRedo s = (if historyIndex s < int (length (history s)) - 1
                   then s\<lparr> historyIndex := historyIndex s + 1 \<rparr> else s)"
proof -
  have "cursorInv (app (run (take n evs) \<lparr> app = initial, db = d, console = c, unhandled = u \<rparr>))"
    by (rule cursorInv_run) (simp add: cursorInv_initial)
  then show ?thesis by (simp add: handleUndo_def handleRedo_def)
qed

section \<open>Transient tool state\<close>

lemma addToHistory_clears:
  "editHotspot (addToHistory cap t f s) = None \<and>
   displayHotspot (addToHistory cap t f s) = None \<and>
   crop (addToHistory cap t f s) = None \<and> completedCrop (addToHistory cap t f s) = None \<and>
   isMasking (addToHistory cap t f s) = False \<and> maskDataUrl (addToHistory cap t f s) = None \<and>
   videoResult (addToHistory cap t f s) = None \<and>
   analysisResult (addToHistory cap t f s) = None"
  by (simp add: addToHistory_def addToast_def Let_def)

lemma addToHistory_keeps:
  "groundingChunks (addToHistory cap t f s) = groundingChunks s \<and>
   maskCanvas (addToHistory cap t f s) = maskCanvas s \<and>
   isDrawing (addToHistory cap t f s) = isDrawing s \<and>
   lastPosition (addToHistory cap t f s) = lastPosition s"
  by (simp add: addToHistory_def addToast_def Let_def)

text \<open>
  Claim C3 says that every append clears all transient tool state, the cached
  analysis results included.  \<^verbatim>\<open>addToHistory\<close> resets eight cells under the comment
  ``Reset transient states'' but not \<^verbatim>\<open>groundingChunks\<close>, which \<^verbatim>\<open>handleAnalysis\<close> caches
  together with \<^verbatim>\<open>analysisResult\<close>.  Upload an image, analyse it with web grounding,
  then append an edit: the analysis text is gone, the citations of the previous
  image are still there.  They come back on screen as ``1 Sources Found'' when
  a video is analysed afterwards in the analyze tool.
\<close>

theorem addToHistory_leaves_groundingChunks:
  "let s1 = addToHistory (rendered initial) 1 (File ''a.png'' ''image/png'' []) initial;
       s2 = handleAnalysis 2 (Resolved (''A cat.'', Some [''https://example.org/cats'']))
              (s1\<lparr> activeTool := ToolAnalyze \<rparr>);
       s3 = addToHistory (rendered s2) 3 (File ''b.png'' ''image/png'' []) s2;
       s4 = onAnalyzeVideo (Resolved ''A dog runs.'') s3
   in currentImage s2 = Some (File ''a.png'' ''image/png'' []) \<and>
      analysisResult s2 = Some ''A cat.'' \<and>
      groundingChunks s2 = Some [''https://example.org/cats''] \<and>
      currentImage s3 = Some (File ''b.png'' ''image/png'' []) \<and>
      analysisResult s3 = None \<and>
      groundingChunks s3 = Some [''https://example.org/cats''] \<and>
      sourcesFound s4 = Some 1"
  by (simp add: Let_def addToHistory_def addToast_def handleAnalysis_def currentImage_def
      rendered_def imageAt_def slice0_def initial_def onAnalyzeVideo_def sourcesFound_def
      truthy_def)

section \<open>Failed generation\<close>

lemma generateImage_fails:
  "generateImage c (Rejected e) = Rejected e"
  "truthy (blockReason r) \<Longrightarrow>
     generateImage c (Resolved r) = Rejected (Error (''Request blocked: '' @ the (blockReason r)))"
  "\<not> truthy (blockReason r) \<Longrightarrow>
   parts r = None \<or> (\<exists>ps. parts r = Some ps \<and> firstInline ps = None) \<Longrightarrow>
     generateImage c (Resolved r) = noImage r c"
  by (auto simp: generateImage_def handleApiResponse_def)

text \<open>
  Claim C6.  Whichever of the seven generation actions is running on a current
  image, when its promise is rejected the history sequence, the cursor and the
  mask state (masking flag, exported mask, mask canvas, stroke flag and last
  point) are what they were.  The whole effect is one error toast with the
  message of the failure and its 4000 ms removal timer, the busy flag back to
  false, and the request in the log; once the timer has fired the toast is gone.
\<close>

theorem failed_generation_leaves_store:
  assumes "currentImage s = Some img"
  shows "let s' = handleGenAction t atob (requestOf a s) (Some (Rejected e)) filename s
         in history s' = history s \<and> historyIndex s' = historyIndex s \<and>
            isMasking s' = isMasking s \<and> maskDataUrl s' = maskDataUrl s \<and>
            maskCanvas s' = maskCanvas s \<and> isDrawing s' = isDrawing s \<and>
            lastPosition s' = lastPosition s \<and>
            s' = s\<lparr> isLoading := False,
                    remoteCalls := remoteCalls s @ [requestOf a s img],
                    toasts := toasts s @ [\<lparr> tid = t,
                      message = (case e of Error m \<Rightarrow> m | Thrown \<Rightarrow> ''Unknown error''),
                      ttype = TError \<rparr>],
                    timers := timers s @ [(4000, t)] \<rparr> \<and>
            filter (\<lambda>x. tid x = t) (toasts (expireToast t s')) = []"
  using assms
  by (simp add: handleGenAction_def handleGenActionStart_def handleGenActionResume_def
      currentImage_def handleError_def addToast_def Let_def expireToast_def)

text \<open>
  A filter request that the remote side blocks: the snapshot list, the cursor
  and the mask are untouched and the toast carries the block reason.
\<close>

theorem failed_generation_leaves_store_witness:
  "let s = initial\<lparr> history := [File ''a.png'' ''image/png'' []], historyIndex := 0,
             isMasking := True, maskDataUrl := Some (blank 2 2) \<rparr>;
       s' = handleGenAction 9 Inr (requestOf (Filter ''sepia'') s)
              (Some (generateImage ''filter''
                 (Resolved \<lparr> blockReason = Some ''SAFETY'', parts = None, rtext = None \<rparr>)))
              ''filt.png'' s
   in currentImage s = Some (File ''a.png'' ''image/png'' []) \<and>
      history s' = [File ''a.png'' ''image/png'' []] \<and> historyIndex s' = 0 \<and>
      isMasking s' \<and> maskDataUrl s' = Some (blank 2 2) \<and>
      map message (toasts s') = [''Request blocked: SAFETY'']"
  using failed_generation_leaves_store
    [of "initial\<lparr> history := [File ''a.png'' ''image/png'' []], historyIndex := 0,
                   isMasking := True, maskDataUrl := Some (blank 2 2) \<rparr>"
      "File ''a.png'' ''image/png'' []" 9 Inr "Filter ''sepia''"
      "Error ''Request blocked: SAFETY''" "''filt.png''"]
  by (simp add: Let_def initial_def currentImage_def rendered_def imageAt_def
      generateImage_def handleApiResponse_def truthy_def)

section \<open>Reset and persistence\<close>



lemma saveEffect_failure_logged:
  "saveEffect (IdbFails e) t w =
     (if history (app w) = [] then w else w\<lparr> console := console w @ [e] \<rparr>)"
  by (simp add: saveEffect_def saveSession_def)

lemma saveEffect_invoked:
  "history (app w) \<noteq> [] \<Longrightarrow>
   db (saveEffect IdbOk t w) ''current_session'' =
     Some \<lparr> sid = ''current_session'', shistory = history (app w),
            currentIndex = historyIndex (app w), timestamp = t \<rparr>"
  by (simp add: saveEffect_def saveSession_def)

text \<open>
  Claim C8 says that a persistence failure is only logged and never prevents a
  store operation.  The save and load effects do catch and log
  (\<^verbatim>\<open>.catch(console.error)\<close>, \<^verbatim>\<open>.catch(console.warn)\<close>), but \<^verbatim>\<open>handleClear\<close> awaits
  \<^verbatim>\<open>clearSession()\<close> with no handler before it touches the state.  With one
  snapshot in the history and a deletion request that fails, reset leaves the
  snapshot and the cursor in place, nothing is logged, and the rejection is
  unhandled.
\<close>

theorem failed_delete_prevents_reset:
  "let w = \<lparr> app = addToHistory (rendered initial) 1 (File ''a.png'' ''image/png'' []) initial,
             db = [''current_session'' \<mapsto> \<lparr> sid = ''current_session'',
                     shistory = [File ''a.png'' ''image/png'' []],
                     currentIndex = 0, timestamp = 1 \<rparr>],
             console = [], unhandled = [] \<rparr>;
       w' = step w (\<lparr> clock = 2, clearOut = IdbFails (Error ''InvalidStateError''),
                      saveOut = IdbOk \<rparr>, Reset)
   in history (app w') = [File ''a.png'' ''image/png'' []] \<and> historyIndex (app w') = 0 \<and>
      console w' = [] \<and> unhandled w' = [Error ''InvalidStateError'']"
  by (simp add: Let_def step_def applyOp_def depsChanged_def handleClear_def clearSession_def
      addToHistory_def addToast_def slice0_def initial_def rendered_def)

section \<open>Video polling\<close>

lemma pollLoop_done: "opDone opn \<Longrightarrow> pollLoop poll i t opn = Some (Resolved opn, i, t)"
  by (subst pollLoop.simps) simp

lemma pollLoop_first_stop:
  assumes "\<not> opDone opn" "stops (poll k)" "i \<le> k"
    "\<forall>j. i \<le> j \<and> j < k \<longrightarrow> \<not> stops (poll j)"
  shows "pollLoop poll i t opn = Some (poll k, Suc k, t + 5000 * (Suc k - i))"
  using assms
proof (induction "k - i" arbitrary: i t opn)
  case 0
  then have ki: "k = i" by simp
  show ?case
  proof (cases "poll i")
    case (Rejected e)
    then show ?thesis using 0 ki by (subst pollLoop.simps) simp
  next
    case (Resolved opn')
    then have "opDone opn'" using 0 ki by (simp add: stops_def)
    then show ?thesis using 0 ki Resolved
      by (subst pollLoop.simps) (simp add: pollLoop_done)
  qed
next
  case (Suc d)
  then have lt: "i < k" by simp
  then have ns: "\<not> stops (poll i)" using Suc.prems by simp
  then obtain opn' where r: "poll i = Resolved opn'" and nd: "\<not> opDone opn'"
    by (cases "poll i") (auto simp: stops_def)
  have "pollLoop poll (Suc i) (t + 5000) opn' =
        Some (poll k, Suc k, t + 5000 + 5000 * (Suc k - Suc i))"
  proof (rule Suc.hyps(1))
    show "d = k - Suc i" using Suc.hyps(2) by simp
    show "\<not> opDone opn'" by (rule nd)
    show "stops (poll k)" by (rule Suc.prems(2))
    show "Suc i \<le> k" using lt by simp
    show "\<forall>j. Suc i \<le> j \<and> j < k \<longrightarrow> \<not> stops (poll j)" using Suc.prems(4) by simp
  qed
  moreover have "t + 5000 + 5000 * (Suc k - Suc i) = t + 5000 * (Suc k - i)"
    using lt by simp
  ultimately show ?case using Suc.prems(1) r
    by (subst pollLoop.simps) simp
qed

lemma pollLoop_Some_stops:
  assumes "pollLoop poll i t opn = Some r"
  shows "opDone opn \<or> (\<exists>k\<ge>i. stops (poll k))"
proof (rule pollLoop.raw_induct
    [where P = "\<lambda>poll i t opn r. opDone opn \<or> (\<exists>k\<ge>i. stops (poll k))", OF _ assms])
  fix f :: "(nat \<Rightarrow> operation promise) \<Rightarrow> nat \<Rightarrow> nat \<Rightarrow> operation \<Rightarrow>
            (operation promise \<times> nat \<times> nat) option"
  fix poll i t opn r
  assume IH: "\<And>poll i t opn r. f poll i t opn = Some r \<Longrightarrow>
                 opDone opn \<or> (\<exists>k\<ge>i. stops (poll k))"
  assume eq: "(if opDone opn then Some (Resolved opn, i, t)
               else case poll i of
                      Rejected e \<Rightarrow> Some (Rejected e, Suc i, t + 5000)
                    | Resolved opn' \<Rightarrow> f poll (Suc i) (t + 5000) opn') = Some r"
  show "opDone opn \<or> (\<exists>k\<ge>i. stops (poll k))"
  proof (cases "opDone opn")
    case True then show ?thesis by simp
  next
    case False
    show ?thesis
    proof (cases "poll i")
      case (Rejected e)
      then have "stops (poll i)" by (simp add: stops_def)
      then show ?thesis by blast
    next
      case (Resolved opn')
      then have "f poll (Suc i) (t + 5000) opn' = Some r" using eq False by simp
      then have "opDone opn' \<or> (\<exists>k\<ge>Suc i. stops (poll k))" by (rule IH)
      then show ?thesis
      proof
        assume "opDone opn'"
        then have "stops (poll i)" using Resolved by (simp add: stops_def)
        then show ?thesis by blast
      next
        assume "\<exists>k\<ge>Suc i. stops (poll k)"
        then obtain k where "Suc i \<le> k" "stops (poll k)" by blast
        then have "i \<le> k \<and> stops (poll k)" by simp
        then show ?thesis by blast
      qed
    qed
  qed
qed

lemma pollLoop_forever:
  assumes "\<not> opDone opn" "\<forall>k\<ge>i. \<not> stops (poll k)"
  shows "pollLoop poll i t opn = None"
proof (cases "pollLoop poll i t opn")
  case None then show ?thesis .
next
  case (Some r)
  then have "opDone opn \<or> (\<exists>k\<ge>i. stops (poll k))" by (rule pollLoop_Some_stops)
  then show ?thesis using assms by blast
qed

lemma generateVeoVideo_never_done:
  assumes "\<not> opDone opn" "\<forall>k. \<not> stops (poll k)"
  shows "generateVeoVideo key (Resolved opn) poll = None"
    and "currentImage s = Some img \<Longrightarrow>
      handleGenAction t atob mk (generateVeoVideo key (Resolved opn) poll) filename s =
        s\<lparr> isLoading := True, remoteCalls := remoteCalls s @ [mk img] \<rparr>"
proof -
  have "pollLoop poll 0 0 opn = None" using assms by (simp add: pollLoop_forever)
  then show v: "generateVeoVideo key (Resolved opn) poll = None"
    by (simp add: generateVeoVideo_def)
  show "currentImage s = Some img \<Longrightarrow>
      handleGenAction t atob mk (generateVeoVideo key (Resolved opn) poll) filename s =
        s\<lparr> isLoading := True, remoteCalls := remoteCalls s @ [mk img] \<rparr>"
    by (simp add: v handleGenAction_def handleGenActionStart_def currentImage_def Let_def)
qed

text \<open>
  Claim C9.  The polling loop, entered before request \<open>i\<close> with \<open>t\<close> ms slept so
  far, behaves in exactly one of three ways.  If the operation is already done
  it returns at once without polling.  Otherwise, if \<open>k\<close> is the first request
  from \<open>i\<close> on that fails or reports done, it returns after that request, having
  slept 5000 ms before each of the \<open>k + 1 - i\<close> requests: a fixed interval, no
  backoff, and no bound on \<open>k\<close>.  Otherwise, when no request ever fails or
  reports done, the loop never returns.
\<close>

theorem pollLoop_runs_until_done_or_failure:
  "(opDone opn \<longrightarrow> pollLoop poll i t opn = Some (Resolved opn, i, t)) \<and>
   (\<not> opDone opn \<and> i \<le> k \<and> stops (poll k) \<and>
    (\<forall>j. i \<le> j \<and> j < k \<longrightarrow> \<not> stops (poll j)) \<longrightarrow>
      pollLoop poll i t opn = Some (poll k, Suc k, t + 5000 * (Suc k - i))) \<and>
   (\<not> opDone opn \<and> (\<forall>j\<ge>i. \<not> stops (poll j)) \<longrightarrow> pollLoop poll i t opn = None)"
  using pollLoop_done pollLoop_first_stop pollLoop_forever by blast

text \<open>
  An operation that reports done on the third poll returns after three requests
  and 15000 ms of sleep; one that never reports done never returns.
\<close>

theorem pollLoop_runs_until_done_or_failure_witness:
  "pollLoop (\<lambda>n. Resolved \<lparr> opDone = (n = 2), uri = Some ''https://v/1?x=1'' \<rparr>) 0 0
     \<lparr> opDone = False, uri = None \<rparr> =
     Some (Resolved \<lparr> opDone = True, uri = Some ''https://v/1?x=1'' \<rparr>, 3, 15000) \<and>
   pollLoop (\<lambda>n. Resolved \<lparr> opDone = False, uri = None \<rparr>) 0 0
     \<lparr> opDone = False, uri = None \<rparr> = None"
proof -
  let ?p = "\<lambda>n::nat. Resolved \<lparr> opDone = (n = 2), uri = Some ''https://v/1?x=1'' \<rparr>"
  let ?q = "\<lambda>n::nat. Resolved \<lparr> opDone = False, uri = None \<rparr>"
  let ?o = "\<lparr> opDone = False, uri = None \<rparr>"
  have st: "\<forall>j. 0 \<le> j \<and> j < 2 \<longrightarrow> \<not> stops (?p j)" by (simp add: stops_def)
  have a: "pollLoop ?p 0 0 ?o = Some (?p 2, Suc 2, 0 + 5000 * (Suc 2 - 0))"
    using pollLoop_runs_until_done_or_failure [of ?o ?p 0 0 2] st by (simp add: stops_def)
  have b: "pollLoop ?q 0 0 ?o = None"
    using pollLoop_runs_until_done_or_failure [of ?o ?q 0 0 0] by (simp add: stops_def)
  show ?thesis using a b by simp
qed

section \<open>Mask capture\<close>

lemma release_exports:
  assumes "isMasking s" "maskCanvas s = Some c" "ctx2d c"
    and "clientPoint e = Inr pt"
    and "etype e = mouseup \<or> etype e = mouseleave \<or> etype e = touchend"
  shows "handleMaskDraw e s = Inr (s\<lparr> isDrawing := False, maskDataUrl := Some (surface c) \<rparr>)"
  using assms by (cases pt) (auto simp: handleMaskDraw_def)

lemma lone_release_exports_blank_mask:
  assumes "isMasking s" "maskCanvas s = Some c" "ctx2d c" "surface c = blank w h"
    and "t = mouseup \<or> t = mouseleave"
  shows "\<exists>s'. handleMaskDraws [MouseEvent t x y] s = (s', []) \<and>
              maskDataUrl s' = Some (blank w h) \<and> drawn (blank w h) = []"
  using assms release_exports [of s c "MouseEvent t x y" "(x, y)"]
  by (auto simp: blank_def)

lemma touchend_empty_throws:
  "isMasking s \<Longrightarrow> maskCanvas s = Some c \<Longrightarrow>
   handleMaskDraw (TouchEvent touchend []) s =
     Inl (Error ''TypeError: cannot read properties of undefined'')"
  by (simp add: handleMaskDraw_def)

text \<open>
  Claim C10 says that every pointer-up, pointer-leave or touch-end on the mask
  canvas exports the bitmap as the finalized mask.  For the mouse events that
  is so, whatever the stroke flag (\<open>release_exports\<close>), and a lone mouse-up
  over a blank canvas does finalize a mask on which nothing was drawn
  (\<open>lone_release_exports_blank_mask\<close>).  A touch-end, however, arrives with
  the list of the touches that remain; after a one-finger gesture it is empty,
  \<^verbatim>\<open>e.touches[0].clientX\<close> throws before the handler reaches its last branch, and
  nothing is exported: after touch-start, touch-move, touch-end the canvas has
  received the stamp and the segment, the stroke flag is still set and there is
  no mask.
\<close>

theorem touchend_throws_before_export:
  "let s = initial\<lparr> history := [File ''a.png'' ''image/png'' []], historyIndex := 0,
             isMasking := True, brushSize := 5,
             maskCanvas := Some \<lparr> surface = blank 8 1, rectLeft = 0, rectTop = 0,
                                  ctx2d = True \<rparr> \<rparr>;
       r = handleMaskDraws
             [TouchEvent touchstart [(2, 1 / 2)], TouchEvent touchmove [(5, 1 / 2)],
              TouchEvent touchend []] s
   in snd r = [Error ''TypeError: cannot read properties of undefined''] \<and>
      maskDataUrl (fst r) = None \<and> isDrawing (fst r) \<and>
      map_option (\<lambda>c. drawn (surface c)) (maskCanvas (fst r)) =
        Some [FillPath paintColour (Arc 2 (1 / 2) (5 / 2)),
              StrokePath paintColour 5 RoundCap (Line 2 (1 / 2) 5 (1 / 2))]"
  by (simp add: Let_def initial_def handleMaskDraw_def draw_def blank_def)

lemma handleMaskDraw_draws:
  assumes "handleMaskDraw e s = Inr s'" "maskCanvas s = Some c"
  shows "\<exists>c' new. maskCanvas s' = Some c' \<and> drawn (surface c') = drawn (surface c) @ new \<and>
           map paintOf new = replicate (length new) (Some paintColour)"
proof -
  have a: "\<exists>new. drawn (surface c) = drawn (surface c) @ new \<and>
             map paintOf new = replicate (length new) (Some paintColour)"
    by (rule exI [of _ "[]"]) simp
  have b: "\<exists>new. drawn (surface (draw d c)) = drawn (surface c) @ new \<and>
             map paintOf new = replicate (length new) (Some paintColour)"
    if "paintOf d = Some paintColour" for d
    using that by (intro exI [of _ "[d]"]) (simp add: draw_def)
  show ?thesis
    using assms a b [of "FillPath paintColour (Arc x y r)" for x y r]
      b [of "StrokePath paintColour w RoundCap (Line x0 y0 x1 y1)" for w x0 y0 x1 y1]
    by (auto simp: handleMaskDraw_def Let_def
        split: if_splits sum.splits prod.splits option.splits)
qed

lemma handleMaskDraws_draws:
  "maskCanvas s = Some c \<Longrightarrow>
   \<exists>c' new. maskCanvas (fst (handleMaskDraws es s)) = Some c' \<and>
     drawn (surface c') = drawn (surface c) @ new \<and>
     map paintOf new = replicate (length new) (Some paintColour)"
proof (induction es arbitrary: s c)
  case Nil
  then show ?case by simp
next
  case (Cons e es)
  show ?case
  proof (cases "handleMaskDraw e s")
    case (Inl err)
    then have "fst (handleMaskDraws (e # es) s) = fst (handleMaskDraws es s)"
      by (simp split: prod.splits)
    then show ?thesis using Cons.IH [OF Cons.prems] by simp
  next
    case (Inr s1)
    from handleMaskDraw_draws [OF Inr Cons.prems]
    obtain c1 n1 where c1: "maskCanvas s1 = Some c1"
      and d1: "drawn (surface c1) = drawn (surface c) @ n1"
      and p1: "map paintOf n1 = replicate (length n1) (Some paintColour)" by blast
    from Cons.IH [OF c1]
    obtain c2 n2 where c2: "maskCanvas (fst (handleMaskDraws es s1)) = Some c2"
      and d2: "drawn (surface c2) = drawn (surface c1) @ n2"
      and p2: "map paintOf n2 = replicate (length n2) (Some paintColour)" by blast
    have "drawn (surface c2) = drawn (surface c) @ (n1 @ n2)" using d1 d2 by simp
    moreover have "map paintOf (n1 @ n2) = replicate (length (n1 @ n2)) (Some paintColour)"
      using p1 p2 by (simp add: replicate_add)
    moreover have "maskCanvas (fst (handleMaskDraws (e # es) s)) = Some c2"
      using Inr c2 by simp
    ultimately show ?thesis by blast
  qed
qed

text \<open>
  Claim C4, as the code has it.  The paint is fixed: whatever events arrive,
  every shape the handler draws on the mask canvas is in the one colour
  \<^verbatim>\<open>rgba(255,255,255,0.8)\<close>, and it is drawn after, that is over, what the canvas
  already holds.  Its alpha is \<open>4/5\<close>, below full opacity.  A press draws one
  more disc of the brush's diameter and a move while stroking one more
  round-capped segment of the brush's width.
\<close>

theorem mask_paint_fixed_translucent:
  assumes "maskCanvas s = Some c"
  shows "calpha paintColour = 4 / 5 \<and> calpha paintColour < 1 \<and>
     (\<exists>c' new. maskCanvas (fst (handleMaskDraws es s)) = Some c' \<and>
        drawn (surface c') = drawn (surface c) @ new \<and>
        map paintOf new = replicate (length new) (Some paintColour)) \<and>
     (isMasking s \<and> ctx2d c \<and> clientPoint e = Inr (cx, cy) \<and>
      (etype e = mousedown \<or> etype e = touchstart) \<longrightarrow>
        map_sum id (\<lambda>s'. map_option (\<lambda>c'. drawn (surface c')) (maskCanvas s'))
          (handleMaskDraw e s) =
        Inr (Some (drawn (surface c) @
          [FillPath paintColour (Arc (cx - rectLeft c) (cy - rectTop c) (brushSize s / 2))]))) \<and>
     (isMasking s \<and> ctx2d c \<and> clientPoint e = Inr (cx, cy) \<and>
      (etype e = mousemove \<or> etype e = touchmove) \<and> isDrawing s \<and>
      lastPosition s = Some (lx, ly) \<longrightarrow>
        map_sum id (\<lambda>s'. map_option (\<lambda>c'. drawn (surface c')) (maskCanvas s'))
          (handleMaskDraw e s) =
        Inr (Some (drawn (surface c) @
          [StrokePath paintColour (brushSize s) RoundCap
             (Line lx ly (cx - rectLeft c) (cy - rectTop c))])))"
proof (intro conjI impI)
  show "calpha paintColour = 4 / 5" by (simp add: paintColour_def)
  show "calpha paintColour < 1" by (simp add: paintColour_def)
  show "\<exists>c' new. maskCanvas (fst (handleMaskDraws es s)) = Some c' \<and>
        drawn (surface c') = drawn (surface c) @ new \<and>
        map paintOf new = replicate (length new) (Some paintColour)"
    using assms by (rule handleMaskDraws_draws)
next
  assume "isMasking s \<and> ctx2d c \<and> clientPoint e = Inr (cx, cy) \<and>
      (etype e = mousedown \<or> etype e = touchstart)"
  then show "map_sum id (\<lambda>s'. map_option (\<lambda>c'. drawn (surface c')) (maskCanvas s'))
          (handleMaskDraw e s) =
        Inr (Some (drawn (surface c) @
          [FillPath paintColour (Arc (cx - rectLeft c) (cy - rectTop c) (brushSize s / 2))]))"
    using assms by (auto simp: handleMaskDraw_def draw_def Let_def)
next
  assume "isMasking s \<and> ctx2d c \<and> clientPoint e = Inr (cx, cy) \<and>
      (etype e = mousemove \<or> etype e = touchmove) \<and> isDrawing s \<and>
      lastPosition s = Some (lx, ly)"
  then show "map_sum id (\<lambda>s'. map_option (\<lambda>c'. drawn (surface c')) (maskCanvas s'))
          (handleMaskDraw e s) =
        Inr (Some (drawn (surface c) @
          [StrokePath paintColour (brushSize s) RoundCap
             (Line lx ly (cx - rectLeft c) (cy - rectTop c))]))"
    using assms by (auto simp: handleMaskDraw_def draw_def Let_def)
qed

text \<open>
  A press at \<open>(2, 1/2)\<close> with brush size 5 on a blank canvas of 8 by 1 pixels
  draws one disc of radius \<open>5/2\<close> in the paint of alpha \<open>4/5\<close>.
\<close>

theorem mask_paint_fixed_translucent_witness:
  "let c = \<lparr> surface = blank 8 1, rectLeft = 0, rectTop = 0, ctx2d = True \<rparr>;
       s = initial\<lparr> isMasking := True, brushSize := 5, maskCanvas := Some c \<rparr>
   in maskCanvas s = Some c \<and> isMasking s \<and> ctx2d c \<and>
      clientPoint (MouseEvent mousedown 2 (1 / 2)) = Inr (2, 1 / 2) \<and>
      map_sum id (\<lambda>s'. map_option (\<lambda>c'. drawn (surface c')) (maskCanvas s'))
        (handleMaskDraw (MouseEvent mousedown 2 (1 / 2)) s) =
        Inr (Some [FillPath paintColour (Arc 2 (1 / 2) (5 / 2))]) \<and>
      calpha paintColour = 4 / 5"
  using mask_paint_fixed_translucent
    [of "initial\<lparr> isMasking := True, brushSize := 5,
           maskCanvas := Some \<lparr> surface = blank 8 1, rectLeft = 0, rectTop = 0,
                                ctx2d = True \<rparr> \<rparr>"
      "\<lparr> surface = blank 8 1, rectLeft = 0, rectTop = 0, ctx2d = True \<rparr>"
      "[]" "MouseEvent mousedown 2 (1 / 2)" 2 "1 / 2"]
  by (simp add: Let_def initial_def blank_def)

text \<open>
  Claim C4 as stated fails: the paint is not fully opaque.  Two overlapping
  stamps of brush size 5, at \<open>x = 2\<close> and \<open>x = 5\<close>, each finalized by a mouse-up,
  export a mask made of two discs in paint of alpha \<open>4/5\<close>, the second drawn over
  the first.
\<close>

theorem mask_paint_not_opaque:
  "calpha paintColour \<noteq> 1 \<and>
   maskDataUrl (fst (handleMaskDraws
     [MouseEvent mousedown 2 (1 / 2), MouseEvent mouseup 2 (1 / 2),
      MouseEvent mousedown 5 (1 / 2), MouseEvent mouseup 5 (1 / 2)]
     (initial\<lparr> history := [File ''a.png'' ''image/png'' []], historyIndex := 0,
        isMasking := True, brushSize := 5,
        maskCanvas := Some \<lparr> surface = blank 8 1, rectLeft = 0, rectTop = 0,
                             ctx2d = True \<rparr> \<rparr>))) =
     Some \<lparr> bwidth = 8, bheight = 1,
            drawn = [FillPath \<lparr> cred = 255, cgreen = 255, cblue = 255, calpha = 4 / 5 \<rparr>
                       (Arc 2 (1 / 2) (5 / 2)),
                     FillPath \<lparr> cred = 255, cgreen = 255, cblue = 255, calpha = 4 / 5 \<rparr>
                       (Arc 5 (1 / 2) (5 / 2))] \<rparr>"
  by (simp add: initial_def handleMaskDraw_def draw_def blank_def paintColour_def)

section \<open>Magic fill submission\<close>




end
